theory Spec2Isabelle
  imports Complex_Main "HOL-Library.Char_ord" "HOL-Library.List_Lexorder" "HOL-Library.AList"
begin

section \<open>Data model\<close>

text \<open>
  The analytics engine (\<^verbatim>\<open>analytics.js\<close>) consumes the rows that the parser has normalised.
  Conventions of the embedding:

  \<^item> A JavaScript number that comes from the input is a finite rational; sums are exact
    (the rounding of binary floating point, infinite inputs and the negative zero are not
    modelled). The result of a division keeps the three non-finite outcomes (\<open>jsnum\<close>).
  \<^item> A \<^verbatim>\<open>Date\<close> is represented by its time value in milliseconds together with the local
    calendar year and month index that \<^verbatim>\<open>getFullYear()\<close> and \<^verbatim>\<open>getMonth()\<close> return.
    The parser leaves \<^verbatim>\<open>null\<close> for a date it could not parse and the empty cell \<^verbatim>\<open>''\<close>
    untouched; both are falsy and both count as 0 in arithmetic and comparisons.
  \<^item> A plain object used as a dictionary is an insertion-ordered association list over
    its own string keys. Properties inherited from \<^verbatim>\<open>Object.prototype\<close> are not part of the
    model, so identifiers are assumed not to be names such as \<^verbatim>\<open>constructor\<close>.
  \<^item> \<^verbatim>\<open>new Date()\<close> is the explicit parameter \<open>today\<close> (milliseconds).
\<close>

datatype jsdate = DateObj (timeValue: int) (fullYear: int) (monthIndex: nat) | DateNull | DateEmpty

datatype jsnum = Num rat | PosInfinity | NegInfinity | NaN

record row =
  order_number :: string
  receipt_id :: string
  transaction_date :: jsdate
  item_sku :: string
  item_name :: string
  item_actual_name :: string
  full_item_image :: string
  quantity :: rat
  unit_price :: rat
  line_total :: rat
  department_id :: string
  instant_savings :: "rat option"
  discount_amount :: "rat option"
  shop_card_applied :: "rat option"
  coupon_applied :: "rat option"

text \<open>The numeric fields that are read by name (\<^verbatim>\<open>r[f]\<close>); \<open>None\<close> is a missing property.\<close>

datatype field = F_line_total | F_instant_savings | F_discount_amount | F_coupon_applied | F_shop_card_applied

fun get_field :: "row \<Rightarrow> field \<Rightarrow> rat option" where
  "get_field r F_line_total = Some (line_total r)"
| "get_field r F_instant_savings = instant_savings r"
| "get_field r F_discount_amount = discount_amount r"
| "get_field r F_coupon_applied = coupon_applied r"
| "get_field r F_shop_card_applied = shop_card_applied r"

text \<open>\<^verbatim>\<open>v || 0\<close> on a number or a missing property.\<close>

fun or0 :: "rat option \<Rightarrow> rat" where
  "or0 None = 0"
| "or0 (Some v) = v"

text \<open>A date is truthy exactly when it is a \<^verbatim>\<open>Date\<close> object; \<open>date_num\<close> is its numeric value.\<close>

fun is_date :: "jsdate \<Rightarrow> bool" where
  "is_date (DateObj t y m) = True"
| "is_date DateNull = False"
| "is_date DateEmpty = False"

fun date_num :: "jsdate \<Rightarrow> int" where
  "date_num (DateObj t y m) = t"
| "date_num DateNull = 0"
| "date_num DateEmpty = 0"

section \<open>Utilities\<close>

text \<open>\<^verbatim>\<open>sum(arr, field)\<close>: \<^verbatim>\<open>arr.reduce((s, r) => s + (r[field] || 0), 0)\<close>.\<close>

definition sum_js :: "row list \<Rightarrow> field \<Rightarrow> rat" where
  "sum_js arr f = foldl (\<lambda>s r. s + or0 (get_field r f)) 0 arr"

text \<open>\<^verbatim>\<open>Math.round(n * 100) / 100\<close>; \<^verbatim>\<open>Math.round\<close> rounds a half towards plus infinity.\<close>

definition round2 :: "rat \<Rightarrow> rat" where
  "round2 n = of_int \<lfloor>n * 100 + 1 / 2\<rfloor> / 100"

text \<open>\<^verbatim>\<open>r.receipt_id || r.order_number\<close>: the empty string is falsy.\<close>

definition receiptKey :: "row \<Rightarrow> string" where
  "receiptKey r = (if receipt_id r \<noteq> [] then receipt_id r else order_number r)"

text \<open>\<^verbatim>\<open>r.item_sku || r.item_name\<close>, the grouping key of every item-level aggregate.\<close>

definition itemKey :: "row \<Rightarrow> string" where
  "itemKey r = (if item_sku r \<noteq> [] then item_sku r else item_name r)"

subsection \<open>Decimal strings and month keys\<close>

definition digit_char :: "nat \<Rightarrow> char" where
  "digit_char d = ''0123456789'' ! d"

fun show_nat :: "nat \<Rightarrow> string" where
  "show_nat n = (if n < 10 then [digit_char n] else show_nat (n div 10) @ [digit_char (n mod 10)])"

definition show_int :: "int \<Rightarrow> string" where
  "show_int i = (if i < 0 then CHR ''-'' # show_nat (nat (- i)) else show_nat (nat i))"

text \<open>\<^verbatim>\<open>s.padStart(2, '0')\<close>.\<close>

definition padStart2 :: "string \<Rightarrow> string" where
  "padStart2 s = replicate (2 - length s) (CHR ''0'') @ s"

text \<open>\<^verbatim>\<open>monthKey(date)\<close>: \<^verbatim>\<open>null\<close> unless the value is a \<^verbatim>\<open>Date\<close>.\<close>

fun monthKey :: "jsdate \<Rightarrow> string option" where
  "monthKey (DateObj t y m) = Some (show_int y @ ''-'' @ padStart2 (show_nat (m + 1)))"
| "monthKey DateNull = None"
| "monthKey DateEmpty = None"

subsection \<open>Objects as dictionaries\<close>

text \<open>
  An object is the list of its own properties in insertion order: \<open>map_of\<close> reads a
  property and \<open>AList.update\<close> writes one (in place, or at the end when the key is new).
  \<^verbatim>\<open>Object.keys\<close>, \<^verbatim>\<open>Object.values\<close> and \<^verbatim>\<open>Object.entries\<close> enumerate the keys that
  are array indices (canonical decimal numerals below \<open>2^32 - 1\<close>) first, in ascending
  numeric order, and then the other keys in insertion order.
\<close>

type_synonym 'v obj = "(string \<times> 'v) list"

definition is_digit :: "char \<Rightarrow> bool" where
  "is_digit c = (CHR ''0'' \<le> c \<and> c \<le> CHR ''9'')"

definition digits_value :: "string \<Rightarrow> int" where
  "digits_value s = foldl (\<lambda>n c. 10 * n + (of_char c - 48)) 0 s"

definition is_array_index :: "string \<Rightarrow> bool" where
  "is_array_index s =
     (case s of
        [] \<Rightarrow> False
      | c # cs \<Rightarrow> list_all is_digit s \<and> (if c = CHR ''0'' then cs = [] else True)
                 \<and> digits_value s < 4294967295)"

definition obj_entries :: "'v obj \<Rightarrow> (string \<times> 'v) list" where
  "obj_entries m =
     sort_key (\<lambda>e. digits_value (fst e)) (filter (\<lambda>e. is_array_index (fst e)) m)
     @ filter (\<lambda>e. \<not> is_array_index (fst e)) m"

definition obj_keys :: "'v obj \<Rightarrow> string list" where
  "obj_keys m = map fst (obj_entries m)"

definition obj_values :: "'v obj \<Rightarrow> 'v list" where
  "obj_values m = map snd (obj_entries m)"

subsection \<open>Sorting\<close>

text \<open>
  \<^verbatim>\<open>Array.prototype.sort\<close> with a comparator is stable. \<open>prec a b\<close> stands for
  \<^verbatim>\<open>compare(a, b) < 0\<close>. For a consistent comparator every stable sort returns the list
  that this insertion sort returns; for an inconsistent one (a comparator that yields
  \<^verbatim>\<open>NaN\<close>) the language leaves the order to the implementation, and nothing below depends
  on it.
\<close>

fun insert_sorted :: "('a \<Rightarrow> 'a \<Rightarrow> bool) \<Rightarrow> 'a \<Rightarrow> 'a list \<Rightarrow> 'a list" where
  "insert_sorted prec x [] = [x]"
| "insert_sorted prec x (y # ys) =
     (if prec y x then y # insert_sorted prec x ys else x # y # ys)"

definition js_sort :: "('a \<Rightarrow> 'a \<Rightarrow> bool) \<Rightarrow> 'a list \<Rightarrow> 'a list" where
  "js_sort prec xs = foldr (insert_sorted prec) xs []"

section \<open>Receipt-level deduplication\<close>

text \<open>
  \<^verbatim>\<open>deduplicateReceiptField(rows, fields)\<close>. The state of the loop is the object \<^verbatim>\<open>seen\<close>
  (the set of keys stored in it) and the object \<^verbatim>\<open>totals\<close>. \<^verbatim>\<open>totals[f] += x\<close> on a
  field that was never initialised cannot happen: every requested field starts at 0.
\<close>

definition add_total :: "row \<Rightarrow> (field \<rightharpoonup> rat) \<Rightarrow> field \<Rightarrow> (field \<rightharpoonup> rat)" where
  "add_total r totals f =
     (case totals f of
        Some v \<Rightarrow> totals(f \<mapsto> v + or0 (get_field r f))
      | None \<Rightarrow> totals)"

definition zero_totals :: "field list \<Rightarrow> (field \<rightharpoonup> rat)" where
  "zero_totals fs = foldl (\<lambda>t f. t(f \<mapsto> 0)) Map.empty fs"

definition dedup_row :: "field list \<Rightarrow> string set \<times> (field \<rightharpoonup> rat) \<Rightarrow> row \<Rightarrow> string set \<times> (field \<rightharpoonup> rat)" where
  "dedup_row fs st r =
     (let key = receiptKey r in
      if key \<in> fst st then st
      else (insert key (fst st), foldl (add_total r) (snd st) fs))"

definition deduplicateReceiptField :: "row list \<Rightarrow> field list \<Rightarrow> (field \<rightharpoonup> rat)" where
  "deduplicateReceiptField rows fs =
     snd (foldl (dedup_row fs) ({}, zero_totals fs) rows)"


definition savings_fields :: "field list" where
  "savings_fields = [F_instant_savings, F_discount_amount, F_coupon_applied, F_shop_card_applied]"

section \<open>Summary\<close>

text \<open>A \<^verbatim>\<open>Set\<close> of strings: its elements in insertion order; \<^verbatim>\<open>size\<close> is the length.\<close>

definition set_add :: "string list \<Rightarrow> string \<Rightarrow> string list" where
  "set_add xs x = (if x \<in> set xs then xs else xs @ [x])"

text \<open>
  The loop of \<^verbatim>\<open>computeSummary\<close> that fills \<^verbatim>\<open>receiptIds\<close> (first component) and
  \<^verbatim>\<open>purchaseReceiptIds\<close> (second component); both are keyed by \<^verbatim>\<open>r.receipt_id\<close>.
\<close>

definition trip_row :: "string list \<times> string list \<Rightarrow> row \<Rightarrow> string list \<times> string list" where
  "trip_row st r =
     (set_add (fst st) (receipt_id r),
      if quantity r > 0 then set_add (snd st) (receipt_id r) else snd st)"

definition trip_sets :: "row list \<Rightarrow> string list \<times> string list" where
  "trip_sets rows = foldl trip_row ([], []) rows"

text \<open>\<^verbatim>\<open>arr.reduce((s, r) => s + Math.abs(r.quantity), 0)\<close>.\<close>

definition sum_abs_quantity :: "row list \<Rightarrow> rat" where
  "sum_abs_quantity arr = foldl (\<lambda>s r. s + \<bar>quantity r\<bar>) 0 arr"


text \<open>
  The local \<^verbatim>\<open>dedupedTotalSavings\<close>, returned as \<^verbatim>\<open>totalSavings\<close>. The four totals read
  here are the four that were requested, so none is missing.
\<close>

definition dedupedTotalSavings :: "row list \<Rightarrow> rat" where
  "dedupedTotalSavings rows =
     (let receiptSavings = deduplicateReceiptField rows savings_fields in
      \<bar>or0 (receiptSavings F_instant_savings)\<bar> + \<bar>or0 (receiptSavings F_discount_amount)\<bar>
      + \<bar>or0 (receiptSavings F_coupon_applied)\<bar> + \<bar>or0 (receiptSavings F_shop_card_applied)\<bar>)"

record summary =
  totalSpent :: rat
  totalPurchaseAmount :: rat
  totalReturnAmount :: rat
  totalTrips :: nat
  totalItemsPurchased :: rat
  totalItemsReturned :: rat
  totalSavings :: rat
  avgPerTrip :: rat

definition computeSummary :: "row list \<Rightarrow> row list \<Rightarrow> row list \<Rightarrow> summary" where
  "computeSummary rows purchases returns =
     (let spent = sum_js rows F_line_total;
          sets = trip_sets rows;
          trips = (if length (snd sets) \<noteq> 0 then length (snd sets) else length (fst sets))
      in \<lparr>totalSpent = spent,
          totalPurchaseAmount = sum_js purchases F_line_total,
          totalReturnAmount = \<bar>sum_js returns F_line_total\<bar>,
          totalTrips = trips,
          totalItemsPurchased = sum_abs_quantity purchases,
          totalItemsReturned = sum_abs_quantity returns,
          totalSavings = dedupedTotalSavings rows,
          avgPerTrip = (if trips > 0 then spent / of_nat trips else 0)\<rparr>)"

section \<open>Monthly spending\<close>

record bucket =
  bucket_purchases :: rat
  bucket_returns :: rat

text \<open>
  One iteration of the loop of \<^verbatim>\<open>computeMonthly\<close>. The test is \<^verbatim>\<open>r.quantity > 0\<close> with a
  plain \<^verbatim>\<open>else\<close>.
\<close>

definition monthly_row :: "bucket obj \<Rightarrow> row \<Rightarrow> bucket obj" where
  "monthly_row m r =
     (case monthKey (transaction_date r) of
        None \<Rightarrow> m
      | Some key \<Rightarrow>
          (let b = (case map_of m key of
                      None \<Rightarrow> \<lparr>bucket_purchases = 0, bucket_returns = 0\<rparr>
                    | Some b \<Rightarrow> b)
           in if quantity r > 0
              then AList.update key (b\<lparr>bucket_purchases := bucket_purchases b + line_total r\<rparr>) m
              else AList.update key (b\<lparr>bucket_returns := bucket_returns b + \<bar>line_total r\<bar>\<rparr>) m))"

record monthly =
  m_labels :: "string list"
  m_purchases :: "rat list"
  m_returns :: "rat list"

text \<open>
  \<^verbatim>\<open>Object.keys(map).sort()\<close> compares the keys as strings. \<^verbatim>\<open>map[k]\<close> is read for keys
  of \<^verbatim>\<open>map\<close> only, so the lookup always finds a bucket.
\<close>

definition bucket_of :: "bucket obj \<Rightarrow> string \<Rightarrow> bucket" where
  "bucket_of m k =
     (case map_of m k of
        Some b \<Rightarrow> b
      | None \<Rightarrow> \<lparr>bucket_purchases = 0, bucket_returns = 0\<rparr>)"

definition computeMonthly :: "row list \<Rightarrow> monthly" where
  "computeMonthly rows =
     (let m = foldl monthly_row [] rows;
          ls = sort (obj_keys m)
      in \<lparr>m_labels = ls,
          m_purchases = map (\<lambda>k. round2 (bucket_purchases (bucket_of m k))) ls,
          m_returns = map (\<lambda>k. round2 (bucket_returns (bucket_of m k))) ls\<rparr>)"

section \<open>Full frequency table\<close>

record freqItem =
  fq_sku :: string
  fq_name :: string
  fq_count :: rat
  fq_totalSpent :: rat
  fq_firstDate :: jsdate
  fq_lastDate :: jsdate

text \<open>
  One iteration of the loop of \<^verbatim>\<open>computeFrequencyTable\<close>. A new entry starts with the
  row's own date in both date fields, whatever that date is; later rows replace a date
  only when their own date is truthy and compares smaller (larger).
\<close>

definition freq_row :: "freqItem obj \<Rightarrow> row \<Rightarrow> freqItem obj" where
  "freq_row m r =
     (let key = itemKey r;
          d = transaction_date r;
          e0 = (case map_of m key of
                  None \<Rightarrow> \<lparr>fq_sku = item_sku r, fq_name = item_actual_name r, fq_count = 0,
                            fq_totalSpent = 0, fq_firstDate = d, fq_lastDate = d\<rparr>
                | Some e \<Rightarrow> e);
          e1 = e0\<lparr>fq_count := fq_count e0 + \<bar>quantity r\<bar>,
                  fq_totalSpent := fq_totalSpent e0 + line_total r\<rparr>;
          e2 = (if is_date d \<and> date_num d < date_num (fq_firstDate e1)
                then e1\<lparr>fq_firstDate := d\<rparr> else e1);
          e3 = (if is_date d \<and> date_num d > date_num (fq_lastDate e2)
                then e2\<lparr>fq_lastDate := d\<rparr> else e2)
      in AList.update key e3 m)"

definition computeFrequencyTable :: "row list \<Rightarrow> freqItem list" where
  "computeFrequencyTable purchases =
     js_sort (\<lambda>a b. fq_count b < fq_count a) (obj_values (foldl freq_row [] purchases))"

section \<open>Price changes\<close>

text \<open>Arithmetic on values that may be infinite or \<^verbatim>\<open>NaN\<close>.\<close>

definition js_div :: "rat \<Rightarrow> rat \<Rightarrow> jsnum" where
  "js_div a b =
     (if b \<noteq> 0 then Num (a / b)
      else if a > 0 then PosInfinity
      else if a < 0 then NegInfinity
      else NaN)"

fun js_times :: "jsnum \<Rightarrow> rat \<Rightarrow> jsnum" where
  "js_times (Num a) c = Num (a * c)"
| "js_times PosInfinity c = (if c > 0 then PosInfinity else if c < 0 then NegInfinity else NaN)"
| "js_times NegInfinity c = (if c > 0 then NegInfinity else if c < 0 then PosInfinity else NaN)"
| "js_times NaN c = NaN"

fun js_over :: "jsnum \<Rightarrow> rat \<Rightarrow> jsnum" where
  "js_over (Num a) c = js_div a c"
| "js_over PosInfinity c = (if c \<ge> 0 then PosInfinity else NegInfinity)"
| "js_over NegInfinity c = (if c \<ge> 0 then NegInfinity else PosInfinity)"
| "js_over NaN c = NaN"

fun js_round :: "jsnum \<Rightarrow> jsnum" where
  "js_round (Num a) = Num (of_int \<lfloor>a + 1 / 2\<rfloor>)"
| "js_round PosInfinity = PosInfinity"
| "js_round NegInfinity = NegInfinity"
| "js_round NaN = NaN"

text \<open>\<^verbatim>\<open>round2\<close> on such a value: \<^verbatim>\<open>Math.round(n * 100) / 100\<close>.\<close>

definition round2_js :: "jsnum \<Rightarrow> jsnum" where
  "round2_js n = js_over (js_round (js_times n 100)) 100"

fun js_abs :: "jsnum \<Rightarrow> jsnum" where
  "js_abs (Num a) = Num \<bar>a\<bar>"
| "js_abs PosInfinity = PosInfinity"
| "js_abs NegInfinity = PosInfinity"
| "js_abs NaN = NaN"

fun js_minus :: "jsnum \<Rightarrow> jsnum \<Rightarrow> jsnum" where
  "js_minus (Num a) (Num b) = Num (a - b)"
| "js_minus NaN y = NaN"
| "js_minus x NaN = NaN"
| "js_minus PosInfinity PosInfinity = NaN"
| "js_minus NegInfinity NegInfinity = NaN"
| "js_minus PosInfinity y = PosInfinity"
| "js_minus NegInfinity y = NegInfinity"
| "js_minus (Num a) PosInfinity = NegInfinity"
| "js_minus (Num a) NegInfinity = PosInfinity"

text \<open>\<^verbatim>\<open>x < 0\<close> and \<^verbatim>\<open>x > 0\<close>; both are false on \<^verbatim>\<open>NaN\<close>.\<close>

fun js_negative :: "jsnum \<Rightarrow> bool" where
  "js_negative (Num a) = (a < 0)"
| "js_negative NegInfinity = True"
| "js_negative PosInfinity = False"
| "js_negative NaN = False"

fun js_positive :: "jsnum \<Rightarrow> bool" where
  "js_positive (Num a) = (a > 0)"
| "js_positive PosInfinity = True"
| "js_positive NegInfinity = False"
| "js_positive NaN = False"

record priceObs =
  po_price :: rat
  po_date :: jsdate

record priceItem =
  pi_name :: string
  pi_prices :: "priceObs list"

record priceChange =
  pc_name :: string
  pc_oldPrice :: rat
  pc_newPrice :: rat
  pc_change :: rat
  pc_changePercent :: jsnum
  pc_firstDate :: jsdate
  pc_lastDate :: jsdate

definition price_row :: "priceItem obj \<Rightarrow> row \<Rightarrow> priceItem obj" where
  "price_row m r =
     (let key = itemKey r;
          e = (case map_of m key of
                 None \<Rightarrow> \<lparr>pi_name = item_actual_name r, pi_prices = []\<rparr>
               | Some e \<Rightarrow> e)
      in AList.update key
           (e\<lparr>pi_prices := pi_prices e @ [\<lparr>po_price = unit_price r, po_date = transaction_date r\<rparr>]\<rparr>) m)"

text \<open>
  The body of the second loop of \<^verbatim>\<open>computePriceChanges\<close> for one item: the entry it
  pushes, if any. The percent change is
  \<^verbatim>\<open>round2(((last.price - first.price) / first.price) * 100)\<close>, with no test on
  \<^verbatim>\<open>first.price\<close>.
\<close>

definition price_change_of :: "priceItem \<Rightarrow> priceChange list" where
  "price_change_of item =
     (if length (pi_prices item) < 2 then []
      else
        (case js_sort (\<lambda>a b. date_num (po_date a) < date_num (po_date b)) (pi_prices item) of
           [] \<Rightarrow> []
         | first # rest \<Rightarrow>
             (let lst = last (first # rest) in
              if length (remdups (map po_price (first # rest))) > 1
              then [\<lparr>pc_name = pi_name item,
                     pc_oldPrice = po_price first,
                     pc_newPrice = po_price lst,
                     pc_change = round2 (po_price lst - po_price first),
                     pc_changePercent =
                       round2_js (js_times (js_div (po_price lst - po_price first) (po_price first)) 100),
                     pc_firstDate = po_date first,
                     pc_lastDate = po_date lst\<rparr>]
              else [])))"

definition computePriceChanges :: "row list \<Rightarrow> priceChange list" where
  "computePriceChanges purchases =
     js_sort
       (\<lambda>a b. js_negative (js_minus (js_abs (pc_changePercent b)) (js_abs (pc_changePercent a))))
       (concat (map price_change_of (obj_values (foldl price_row [] purchases))))"

section \<open>Savings breakdown\<close>

record breakdown =
  sb_labels :: "string list"
  sb_values :: "rat list"

text \<open>
  \<^verbatim>\<open>computeSavingsBreakdown\<close>: the object \<^verbatim>\<open>data\<close> receives at most four keys, in this
  order; none of them is an array index, so they are enumerated in insertion order.
\<close>

definition computeSavingsBreakdown :: "row list \<Rightarrow> breakdown" where
  "computeSavingsBreakdown rows =
     (let receipt = deduplicateReceiptField rows savings_fields;
          data = filter (\<lambda>e. snd e > 0)
                   [(''Instant Savings'', \<bar>or0 (receipt F_instant_savings)\<bar>),
                    (''Discounts'', \<bar>or0 (receipt F_discount_amount)\<bar>),
                    (''Coupons'', \<bar>or0 (receipt F_coupon_applied)\<bar>),
                    (''Shop Card'', \<bar>or0 (receipt F_shop_card_applied)\<bar>)]
      in \<lparr>sb_labels = map fst data, sb_values = map (\<lambda>e. round2 (snd e)) data\<rparr>)"

section \<open>Potential returns\<close>

datatype policy = Standard | NinetyDay

record deptInfo =
  di_label :: string
  di_policy :: policy

definition RETURNABLE_DEPTS :: "(string \<times> deptInfo) list" where
  "RETURNABLE_DEPTS =
     [(''22'', \<lparr>di_label = ''Tires & Auto'', di_policy = Standard\<rparr>),
      (''23'', \<lparr>di_label = ''Electronics & Batteries'', di_policy = NinetyDay\<rparr>),
      (''24'', \<lparr>di_label = ''Computers & Tech'', di_policy = NinetyDay\<rparr>),
      (''26'', \<lparr>di_label = ''Luggage & Travel'', di_policy = Standard\<rparr>),
      (''28'', \<lparr>di_label = ''Toys & Seasonal'', di_policy = Standard\<rparr>),
      (''31'', \<lparr>di_label = ''Apparel & Shoes'', di_policy = Standard\<rparr>),
      (''32'', \<lparr>di_label = ''Home & Kitchen'', di_policy = Standard\<rparr>),
      (''33'', \<lparr>di_label = ''Small Appliances'', di_policy = Standard\<rparr>),
      (''38'', \<lparr>di_label = ''Furniture & Lighting'', di_policy = Standard\<rparr>),
      (''39'', \<lparr>di_label = ''Baby Apparel'', di_policy = Standard\<rparr>)]"

datatype status = Urgent | Limited | Anytime | Expired

text \<open>\<^verbatim>\<open>statusOrder\<close>.\<close>

fun statusOrder :: "status \<Rightarrow> nat" where
  "statusOrder Urgent = 0"
| "statusOrder Limited = 1"
| "statusOrder Anytime = 2"
| "statusOrder Expired = 3"

record purchasedItem =
  pm_sku :: string
  pm_name :: string
  pm_department_id :: string
  pm_totalQty :: rat
  pm_unitPrice :: rat
  pm_totalSpent :: rat
  pm_purchaseDate :: jsdate
  pm_image :: string

record entry =
  re_sku :: string
  re_name :: string
  re_department :: string
  re_departmentId :: string
  re_quantity :: rat
  re_unitPrice :: rat
  re_refundEstimate :: rat
  re_purchaseDate :: jsdate
  re_daysSincePurchase :: int
  re_policy :: string
  re_daysRemaining :: "int option"
  re_status :: status
  re_image :: string

record category =
  cat_items :: "entry list"
  cat_totalRefund :: rat

record potentialReturns =
  pr_all :: "entry list"
  pr_returnable :: "entry list"
  pr_urgent :: "entry list"
  pr_expired :: "entry list"
  pr_categories :: "category obj"
  pr_totalPotentialRefund :: rat
  pr_totalReturnableItems :: rat

text \<open>\<^verbatim>\<open>returnedMap[key] = (returnedMap[key] || 0) + Math.abs(r.quantity)\<close>.\<close>

definition returned_row :: "rat obj \<Rightarrow> row \<Rightarrow> rat obj" where
  "returned_row m r =
     (let key = itemKey r in AList.update key (or0 (map_of m key) + \<bar>quantity r\<bar>) m)"

text \<open>
  One iteration of the loop that fills \<^verbatim>\<open>purchasedMap\<close>. The comparison of the dates has
  no truthiness test: a date that is not a \<^verbatim>\<open>Date\<close> compares as 0.
\<close>

definition purchased_row :: "purchasedItem obj \<Rightarrow> row \<Rightarrow> purchasedItem obj" where
  "purchased_row m r =
     (let key = itemKey r;
          e0 = (case map_of m key of
                  None \<Rightarrow> \<lparr>pm_sku = item_sku r, pm_name = item_actual_name r,
                            pm_department_id = department_id r, pm_totalQty = 0,
                            pm_unitPrice = unit_price r, pm_totalSpent = 0,
                            pm_purchaseDate = transaction_date r, pm_image = full_item_image r\<rparr>
                | Some e \<Rightarrow> e);
          e1 = e0\<lparr>pm_totalQty := pm_totalQty e0 + \<bar>quantity r\<bar>,
                  pm_totalSpent := pm_totalSpent e0 + line_total r\<rparr>;
          e2 = (if date_num (transaction_date r) > date_num (pm_purchaseDate e1)
                then e1\<lparr>pm_purchaseDate := transaction_date r, pm_unitPrice := unit_price r\<rparr>
                else e1)
      in AList.update key e2 m)"

text \<open>
  The body of the loop over \<^verbatim>\<open>Object.entries(purchasedMap)\<close>: the entry pushed for one
  item, if any. \<open>today\<close> is the evaluation instant in milliseconds.
\<close>

definition entry_of :: "int \<Rightarrow> rat obj \<Rightarrow> string \<times> purchasedItem \<Rightarrow> entry list" where
  "entry_of today returnedMap ki =
     (let key = fst ki; item = snd ki in
      case map_of RETURNABLE_DEPTS (pm_department_id item) of
        None \<Rightarrow> []
      | Some deptInfo \<Rightarrow>
          (let returnedQty = or0 (map_of returnedMap key);
               netQty = pm_totalQty item - returnedQty
           in if netQty \<le> 0 then []
              else
                (let daysSincePurchase = (today - date_num (pm_purchaseDate item)) div 86400000;
                     is90Day = (di_policy deptInfo = NinetyDay);
                     daysRemaining = (if is90Day then Some (90 - daysSincePurchase) else None);
                     isExpired = (is90Day \<and> 90 - daysSincePurchase \<le> 0);
                     st = (if isExpired then Expired
                           else if is90Day \<and> 90 - daysSincePurchase \<le> 14 then Urgent
                           else if is90Day then Limited
                           else Anytime)
                 in [\<lparr>re_sku = pm_sku item,
                       re_name = pm_name item,
                       re_department = di_label deptInfo,
                       re_departmentId = pm_department_id item,
                       re_quantity = netQty,
                       re_unitPrice = pm_unitPrice item,
                       re_refundEstimate = round2 (netQty * pm_unitPrice item),
                       re_purchaseDate = pm_purchaseDate item,
                       re_daysSincePurchase = daysSincePurchase,
                       re_policy = (if is90Day then ''90-Day Return'' else ''Anytime Return''),
                       re_daysRemaining = daysRemaining,
                       re_status = st,
                       re_image = pm_image item\<rparr>])))"

text \<open>Grouping of the pushed entries by department label, in the order they were pushed.\<close>

definition category_add :: "category obj \<Rightarrow> entry \<Rightarrow> category obj" where
  "category_add cats e =
     (let c = (case map_of cats (re_department e) of
                 None \<Rightarrow> \<lparr>cat_items = [], cat_totalRefund = 0\<rparr>
               | Some c \<Rightarrow> c)
      in AList.update (re_department e)
           \<lparr>cat_items = cat_items c @ [e], cat_totalRefund = cat_totalRefund c + re_refundEstimate e\<rparr>
           cats)"

text \<open>The comparator of \<^verbatim>\<open>results.sort\<close>: status priority, then refund estimate descending.\<close>

definition entry_before :: "entry \<Rightarrow> entry \<Rightarrow> bool" where
  "entry_before a b =
     (if statusOrder (re_status a) \<noteq> statusOrder (re_status b)
      then statusOrder (re_status a) < statusOrder (re_status b)
      else re_refundEstimate b < re_refundEstimate a)"

definition computePotentialReturns :: "int \<Rightarrow> row list \<Rightarrow> potentialReturns" where
  "computePotentialReturns today rows =
     (let purchases = filter (\<lambda>r. quantity r > 0) rows;
          returns = filter (\<lambda>r. quantity r < 0) rows;
          returnedMap = foldl returned_row [] returns;
          purchasedMap = foldl purchased_row [] purchases;
          pushed = concat (map (entry_of today returnedMap) (obj_entries purchasedMap));
          categories = foldl category_add [] pushed;
          results = js_sort entry_before pushed;
          returnableItems = filter (\<lambda>e. re_status e \<noteq> Expired) results
      in \<lparr>pr_all = results,
          pr_returnable = returnableItems,
          pr_urgent = filter (\<lambda>e. re_status e = Urgent) results,
          pr_expired = filter (\<lambda>e. re_status e = Expired) results,
          pr_categories = categories,
          pr_totalPotentialRefund =
            round2 (foldl (\<lambda>s e. s + re_refundEstimate e) 0
                      (filter (\<lambda>e. re_status e \<noteq> Expired) results)),
          pr_totalReturnableItems = foldl (\<lambda>s e. s + re_quantity e) 0 returnableItems\<rparr>)"

section \<open>Insights\<close>

text \<open>
  The text of an insight is kept as the sequence of its parts: literal text, a number
  converted by the template (\<open>Str\<close>, \<open>StrJ\<close>) and a number formatted by
  \<^verbatim>\<open>toFixed(k)\<close> (\<open>Fixed k\<close>). Two texts with the same parts are the same string.
\<close>

datatype piece = Lit string | Str rat | StrJ jsnum | Fixed nat rat

datatype kind = Info | Warning | Success

record insight =
  in_type :: kind
  in_title :: string
  in_text :: "piece list"

text \<open>\<^verbatim>\<open>parts.join(sep)\<close>.\<close>

fun join :: "piece list \<Rightarrow> piece list list \<Rightarrow> piece list" where
  "join sep [] = []"
| "join sep [x] = x"
| "join sep (x # y # ys) = x @ sep @ join sep (y # ys)"

text \<open>Rule 1, price increases.\<close>

definition risingPrices :: "row list \<Rightarrow> insight list" where
  "risingPrices purchases =
     (let increases = filter (\<lambda>c. pc_change c > 0) (computePriceChanges purchases) in
      if length increases > 0
      then [\<lparr>in_type = Warning, in_title = ''Rising Prices Detected'',
              in_text = [Str (of_nat (length increases)), Lit '' item(s) have increased in price. Top: '']
                @ join [Lit ''; '']
                    (map (\<lambda>i. [Lit (pc_name i), Lit '' (+$'', Fixed 2 (pc_change i), Lit '', +'',
                                StrJ (pc_changePercent i), Lit ''%)''])
                       (take 3 increases))
                @ [Lit ''.'']\<rparr>]
      else [])"

text \<open>Rule 2, most expensive repeat purchases.\<close>

definition repeatExpenses :: "row list \<Rightarrow> insight list" where
  "repeatExpenses purchases =
     (let freq = computeFrequencyTable purchases;
          expensiveRepeats =
            take 3 (js_sort (\<lambda>a b. fq_totalSpent b < fq_totalSpent a)
                      (filter (\<lambda>f. fq_count f \<ge> 2) freq))
      in if length expensiveRepeats > 0
         then [\<lparr>in_type = Info, in_title = ''Biggest Repeat Expenses'',
                 in_text = [Lit ''Your most costly repeat purchases: '']
                   @ join [Lit ''; '']
                       (map (\<lambda>i. [Lit (fq_name i), Lit '' ('', Str (fq_count i), Lit ''x, $'',
                                   Fixed 2 (fq_totalSpent i), Lit '' total)''])
                          expensiveRepeats)
                   @ [Lit ''. Consider bulk alternatives or sales timing.'']\<rparr>]
         else [])"

text \<open>Rule 3, staples and one-time purchases; it always fires.\<close>

definition purchasePatterns :: "row list \<Rightarrow> insight list" where
  "purchasePatterns purchases =
     (let freq = computeFrequencyTable purchases;
          repeats = filter (\<lambda>f. fq_count f \<ge> 3) freq;
          oneTimers = filter (\<lambda>f. fq_count f = 1) freq
      in [\<lparr>in_type = Info, in_title = ''Purchase Patterns'',
            in_text = [Lit ''You have '', Str (of_nat (length repeats)),
                       Lit '' staple item(s) purchased 3+ times and '',
                       Str (of_nat (length oneTimers)), Lit '' one-time purchase(s). '']
              @ (if length repeats > 0
                 then [Lit ''Your top staples: '']
                        @ join [Lit '', ''] (map (\<lambda>r. [Lit (fq_name r)]) (take 5 repeats))
                        @ [Lit ''.'']
                 else [])\<rparr>])"

text \<open>Rule 4, return rate.\<close>

definition returnRateInsight :: "row list \<Rightarrow> row list \<Rightarrow> insight list" where
  "returnRateInsight purchases returns =
     (let totalItems = sum_abs_quantity purchases;
          returnedItems = sum_abs_quantity returns;
          returnRate = (if totalItems > 0 then returnedItems / totalItems * 100 else 0)
      in if returnRate > 5
         then [\<lparr>in_type = Warning, in_title = ''High Return Rate'',
                 in_text = [Lit ''Your return rate is '', Fixed 1 returnRate,
                            Lit ''%. Review returned items to identify patterns '',
                            Lit ''and reduce unnecessary purchases.'']\<rparr>]
         else [\<lparr>in_type = Success, in_title = ''Low Return Rate'',
                 in_text = [Lit ''Your return rate is only '', Fixed 1 returnRate,
                            Lit ''%, which suggests good purchasing decisions.'']\<rparr>])"

text \<open>
  Rule 5, spending trend. \<^verbatim>\<open>vals.slice(-3)\<close> holds three values whenever there are three
  labels; on a shorter list the comparisons of the source are false and nothing is
  pushed.
\<close>

definition spendingTrend :: "row list \<Rightarrow> insight list" where
  "spendingTrend rows =
     (let monthly = computeMonthly rows in
      if length (m_labels monthly) \<ge> 3
      then
        (let vals = m_purchases monthly in
         case drop (length vals - 3) vals of
           [v0, v1, v2] \<Rightarrow>
             (if v2 > v1 \<and> v1 > v0
              then [\<lparr>in_type = Warning, in_title = ''Spending Is Trending Up'',
                      in_text = [Lit ''Your spending has been increasing over the last 3 months '', Lit ''($'']
                        @ join [Lit '' -> $''] (map (\<lambda>v. [Fixed 0 v]) [v0, v1, v2])
                        @ [Lit ''). Review recent purchases for discretionary items.'']\<rparr>]
              else if v2 < v1 \<and> v1 < v0
              then [\<lparr>in_type = Success, in_title = ''Spending Is Trending Down'',
                      in_text = [Lit ''Great news! Your spending has decreased over the last 3 months '', Lit ''($'']
                        @ join [Lit '' -> $''] (map (\<lambda>v. [Fixed 0 v]) [v0, v1, v2])
                        @ [Lit '').'']\<rparr>]
              else [])
         | _ \<Rightarrow> [])
      else [])"

text \<open>Rule 6, savings utilisation.\<close>

definition savingsRateInsight :: "row list \<Rightarrow> row list \<Rightarrow> insight list" where
  "savingsRateInsight rows purchases =
     (let totalSavingsValue = foldl (\<lambda>s v. s + v) 0 (sb_values (computeSavingsBreakdown rows));
          totalPurchaseAmount = sum_js purchases F_line_total
      in if totalPurchaseAmount > 0
         then
           (let savingsRate = totalSavingsValue / totalPurchaseAmount * 100 in
            [\<lparr>in_type = (if savingsRate > 5 then Success else Info), in_title = ''Savings Rate'',
               in_text = [Lit ''You saved '', Fixed 1 savingsRate,
                          Lit ''% on your total purchases through discounts and coupons. '',
                          (if savingsRate < 5
                           then Lit ''Check Costco's monthly coupon book and app for more savings opportunities.''
                           else Lit ''You're doing well at capturing available discounts!'')]\<rparr>])
         else [])"

text \<open>The six rules run in this order; each appends to the same list.\<close>

definition generateInsights :: "row list \<Rightarrow> row list \<Rightarrow> row list \<Rightarrow> insight list" where
  "generateInsights rows purchases returns =
     risingPrices purchases @ repeatExpenses purchases @ purchasePatterns purchases
     @ returnRateInsight purchases returns @ spendingTrend rows
     @ savingsRateInsight rows purchases"

section \<open>The facade\<close>

text \<open>
  \<^verbatim>\<open>computeAll\<close>, restricted to the aggregates studied here (the chart-only aggregates
  \<^verbatim>\<open>departments\<close>, \<^verbatim>\<open>basketSize\<close>, \<^verbatim>\<open>topFrequency\<close>, \<^verbatim>\<open>topSpend\<close>, \<^verbatim>\<open>returnsTable\<close>,
  \<^verbatim>\<open>monthlySavings\<close> and \<^verbatim>\<open>topDiscounts\<close> are left out). The evaluation instant is read
  by \<^verbatim>\<open>computePotentialReturns\<close> only.
\<close>

record result =
  r_summary :: summary
  r_monthly :: monthly
  r_frequencyTable :: "freqItem list"
  r_priceChanges :: "priceChange list"
  r_savingsBreakdown :: breakdown
  r_potentialReturns :: potentialReturns
  r_insights :: "insight list"

definition computeAll :: "int \<Rightarrow> row list \<Rightarrow> result" where
  "computeAll today rows =
     (let purchases = filter (\<lambda>r. quantity r > 0) rows;
          returns = filter (\<lambda>r. quantity r < 0) rows
      in \<lparr>r_summary = computeSummary rows purchases returns,
          r_monthly = computeMonthly rows,
          r_frequencyTable = computeFrequencyTable purchases,
          r_priceChanges = computePriceChanges purchases,
          r_savingsBreakdown = computeSavingsBreakdown rows,
          r_potentialReturns = computePotentialReturns today rows,
          r_insights = generateInsights rows purchases returns\<rparr>)"

section \<open>Notions used in the statements\<close>

text \<open>
  The definitions of this section are not part of the program: they say in the words of
  the specification what the theorems below compare the program with.
\<close>

text \<open>The month keys of the dated records, and the totals of one month.\<close>

definition month_keys :: "row list \<Rightarrow> string set" where
  "month_keys rows = {k. \<exists>r \<in> set rows. monthKey (transaction_date r) = Some k}"

definition month_purchase_total :: "row list \<Rightarrow> string \<Rightarrow> rat" where
  "month_purchase_total rows k =
     sum_list (map line_total
       (filter (\<lambda>r. quantity r > 0 \<and> monthKey (transaction_date r) = Some k) rows))"

definition month_other_total :: "row list \<Rightarrow> string \<Rightarrow> rat" where
  "month_other_total rows k =
     sum_list (map (\<lambda>r. \<bar>line_total r\<bar>)
       (filter (\<lambda>r. \<not> quantity r > 0 \<and> monthKey (transaction_date r) = Some k) rows))"









section \<open>Example inputs\<close>

text \<open>A row as the parser leaves it when every cell is empty; examples override fields.\<close>

definition blank_row :: row where
  "blank_row = \<lparr>order_number = [], receipt_id = [], transaction_date = DateEmpty,
     item_sku = [], item_name = [], item_actual_name = ''Unknown'', full_item_image = [],
     quantity = 0, unit_price = 0, line_total = 0, department_id = [],
     instant_savings = Some 0, discount_amount = Some 0, shop_card_applied = Some 0,
     coupon_applied = Some 0\<rparr>"


text \<open>Dates at local midnight, with their time values for a clock on UTC.\<close>

definition jan15 :: jsdate where "jan15 = DateObj 1705276800000 2024 0"
definition feb15 :: jsdate where "feb15 = DateObj 1707955200000 2024 1"

text \<open>Evaluation instants: 20 January 2024, and 24 April 2024 (100 days after 15 January).\<close>

definition jan20 :: int where "jan20 = 1705708800000"
definition apr24 :: int where "apr24 = 1713916800000"

text \<open>The same item bought twice; the first unit price is 0 (a free promotional item).\<close>

definition free_then_priced :: "row list" where
  "free_then_priced =
     [blank_row\<lparr>receipt_id := ''R1'', transaction_date := jan15, item_sku := ''555'',
        item_name := ''WIDGET'', item_actual_name := ''Widget'', quantity := 1, unit_price := 0,
        line_total := 0\<rparr>,
      blank_row\<lparr>receipt_id := ''R2'', transaction_date := feb15, item_sku := ''555'',
        item_name := ''WIDGET'', item_actual_name := ''Widget'', quantity := 1, unit_price := 5,
        line_total := 5\<rparr>]"

text \<open>Two lines of one receipt for the same item on the same day, at 5 and at 6.\<close>

definition line_at_5 :: row where
  "line_at_5 = blank_row\<lparr>receipt_id := ''R1'', transaction_date := jan15, item_sku := ''777'',
     item_name := ''GADGET'', item_actual_name := ''Gadget'', quantity := 1, unit_price := 5,
     line_total := 5\<rparr>"

definition line_at_6 :: row where
  "line_at_6 = blank_row\<lparr>receipt_id := ''R1'', transaction_date := jan15, item_sku := ''777'',
     item_name := ''GADGET'', item_actual_name := ''Gadget'', quantity := 1, unit_price := 6,
     line_total := 6\<rparr>"

text \<open>Two online orders without a receipt identifier, told apart by their order numbers.\<close>

definition two_orders :: "row list" where
  "two_orders =
     [blank_row\<lparr>order_number := ''A'', item_sku := ''1'', quantity := 1, unit_price := 3, line_total := 3\<rparr>,
      blank_row\<lparr>order_number := ''B'', item_sku := ''2'', quantity := 1, unit_price := 4, line_total := 4\<rparr>]"



text \<open>A dated line whose quantity could not be parsed (coerced to 0) but whose total is 5.\<close>

definition zero_quantity_line :: "row list" where
  "zero_quantity_line =
     [blank_row\<lparr>receipt_id := ''R1'', transaction_date := jan15, item_sku := ''1'', quantity := 0,
        unit_price := 5, line_total := 5\<rparr>]"


text \<open>An item whose first purchase line has an unparseable date and whose second is dated.\<close>

definition undated_then_dated :: "row list" where
  "undated_then_dated =
     [blank_row\<lparr>receipt_id := ''R1'', transaction_date := DateNull, item_sku := ''900'',
        item_actual_name := ''Lamp'', quantity := 1, unit_price := 20, line_total := 20\<rparr>,
      blank_row\<lparr>receipt_id := ''R2'', transaction_date := jan15, item_sku := ''900'',
        item_actual_name := ''Lamp'', quantity := 1, unit_price := 20, line_total := 20\<rparr>]"

text \<open>
  Purchases of 15 January 2024 in a standard-policy department (31), a 90-day department
  (23) and a department outside the policy table (65).
\<close>

definition jan_purchases :: "row list" where
  "jan_purchases =
     [blank_row\<lparr>receipt_id := ''R1'', transaction_date := jan15, item_sku := ''31001'',
        item_actual_name := ''Jacket'', quantity := 2, unit_price := 10, line_total := 20,
        department_id := ''31''\<rparr>,
      blank_row\<lparr>receipt_id := ''R1'', transaction_date := jan15, item_sku := ''23001'',
        item_actual_name := ''Headphones'', quantity := 1, unit_price := 80, line_total := 80,
        department_id := ''23''\<rparr>,
      blank_row\<lparr>receipt_id := ''R1'', transaction_date := jan15, item_sku := ''65001'',
        item_actual_name := ''Bananas'', quantity := 3, unit_price := 2, line_total := 6,
        department_id := ''65''\<rparr>]"

section \<open>The receipt deduplicator\<close>












section \<open>Return eligibility\<close>



lemma set_obj_entries: "set (obj_entries m) = set m"
  unfolding obj_entries_def by auto















section \<open>Price change from a zero price\<close>

text \<open>
  Claim C2 (the code departs from it). The item of \<open>free_then_priced\<close> has two
  observations with different prices and its chronologically first unit price is 0. The
  entry that \<^verbatim>\<open>computePriceChanges\<close> emits for it carries the percent change
  \<^verbatim>\<open>Infinity\<close>, not 0: the division by the first price is not guarded, unlike the
  division of \<^verbatim>\<open>computeTopDiscounts\<close>.
\<close>

theorem price_change_from_zero_is_infinite:
  "map (\<lambda>c. (pc_oldPrice c, pc_newPrice c, pc_changePercent c))
     (computePriceChanges (filter (\<lambda>r. quantity r > 0) free_then_priced))
   = [(0, 5, PosInfinity)]"
  by code_simp

section \<open>Trips\<close>

text \<open>
  Claim C6 (the code departs from it). The two purchase lines of \<open>two_orders\<close> have no
  receipt identifier and different order numbers, so they have two distinct receipt
  keys. \<^verbatim>\<open>computeSummary\<close> counts \<^verbatim>\<open>r.receipt_id\<close> without the fallback that
  \<^verbatim>\<open>deduplicateReceiptField\<close> applies, and reports one trip.
\<close>

theorem trips_ignore_order_number:
  "totalTrips (computeSummary two_orders (filter (\<lambda>r. quantity r > 0) two_orders)
                 (filter (\<lambda>r. quantity r < 0) two_orders)) = 1
   \<and> card (receiptKey ` set (filter (\<lambda>r. quantity r > 0) two_orders)) = 2"
  by code_simp

section \<open>The monthly series\<close>

text \<open>
  Claim C8 (the code departs from it). A dated record with quantity 0 and line total 5
  adds 5 to the returns series of its month: the loop tests \<^verbatim>\<open>r.quantity > 0\<close> and
  sends every other record to the \<^verbatim>\<open>else\<close> branch.
\<close>

theorem zero_quantity_counts_as_return:
  "computeMonthly zero_quantity_line
   = \<lparr>m_labels = [''2024-01''], m_purchases = [0], m_returns = [5]\<rparr>"
  by code_simp

text \<open>What the loop does compute, for every input.\<close>

lemma month_keys_snoc:
  "month_keys (rows @ [r]) =
     (case monthKey (transaction_date r) of None \<Rightarrow> month_keys rows | Some k \<Rightarrow> insert k (month_keys rows))"
  by (auto simp: month_keys_def split: option.splits)

lemma monthly_row_None: "monthKey (transaction_date r) = None \<Longrightarrow> monthly_row m r = m"
  by (simp add: monthly_row_def)

lemma monthly_row_Some:
  "monthKey (transaction_date r) = Some k \<Longrightarrow>
   \<exists>b. monthly_row m r = AList.update k b m
     \<and> bucket_purchases b = (case map_of m k of None \<Rightarrow> 0 | Some c \<Rightarrow> bucket_purchases c)
          + (if quantity r > 0 then line_total r else 0)
     \<and> bucket_returns b = (case map_of m k of None \<Rightarrow> 0 | Some c \<Rightarrow> bucket_returns c)
          + (if quantity r > 0 then 0 else \<bar>line_total r\<bar>)"
  by (auto simp: monthly_row_def Let_def split: option.splits)

lemma monthly_invariant:
  "distinct (map fst (foldl monthly_row [] rows))
   \<and> fst ` set (foldl monthly_row [] rows) = month_keys rows
   \<and> (\<forall>k b. map_of (foldl monthly_row [] rows) k = Some b \<longrightarrow>
         bucket_purchases b = month_purchase_total rows k
         \<and> bucket_returns b = month_other_total rows k)"
proof (induction rows rule: rev_induct)
  case Nil
  show ?case by (simp add: month_keys_def)
next
  case (snoc r rows)
  let ?m = "foldl monthly_row [] rows"
  show ?case
  proof (cases "monthKey (transaction_date r)")
    case None
    then show ?thesis using snoc
      by (simp add: monthly_row_None month_keys_snoc month_purchase_total_def month_other_total_def)
  next
    case (Some k)
    from monthly_row_Some[OF Some, of ?m] obtain b where
      upd: "monthly_row ?m r = AList.update k b ?m"
      and bp: "bucket_purchases b = (case map_of ?m k of None \<Rightarrow> 0 | Some c \<Rightarrow> bucket_purchases c)
          + (if quantity r > 0 then line_total r else 0)"
      and br: "bucket_returns b = (case map_of ?m k of None \<Rightarrow> 0 | Some c \<Rightarrow> bucket_returns c)
          + (if quantity r > 0 then 0 else \<bar>line_total r\<bar>)"
      by blast
    have none: "map_of ?m k = None \<Longrightarrow> month_purchase_total rows k = 0 \<and> month_other_total rows k = 0"
    proof -
      assume "map_of ?m k = None"
      then have "k \<notin> month_keys rows" using snoc by (simp add: map_of_eq_None_iff)
      then have "filter (\<lambda>r. P r \<and> monthKey (transaction_date r) = Some k) rows = []" for P
        by (auto simp: month_keys_def filter_empty_conv)
      then show ?thesis by (simp add: month_purchase_total_def month_other_total_def)
    qed
    have d: "distinct (map fst (foldl monthly_row [] (rows @ [r])))"
      using snoc upd by (simp add: distinct_update)
    have k: "fst ` set (foldl monthly_row [] (rows @ [r])) = month_keys (rows @ [r])"
      using snoc upd Some by (simp add: dom_update month_keys_snoc)
    have v: "map_of (foldl monthly_row [] (rows @ [r])) k' = Some b' \<Longrightarrow>
         bucket_purchases b' = month_purchase_total (rows @ [r]) k'
         \<and> bucket_returns b' = month_other_total (rows @ [r]) k'" for k' b'
    proof (cases "k' = k")
      case True
      assume "map_of (foldl monthly_row [] (rows @ [r])) k' = Some b'"
      then have "b' = b" using upd True by (simp add: update_conv')
      then show ?thesis using bp br none snoc True Some
        by (cases "map_of ?m k") (auto simp: month_purchase_total_def month_other_total_def)
    next
      case False
      assume "map_of (foldl monthly_row [] (rows @ [r])) k' = Some b'"
      then have "map_of ?m k' = Some b'" using upd False by (simp add: update_conv')
      then show ?thesis using snoc False Some
        by (auto simp: month_purchase_total_def month_other_total_def)
    qed
    from d k v show ?thesis by blast
  qed
qed




lemma monthly_returns:
  "m_returns (computeMonthly rows)
     = map (\<lambda>k. round2 (month_other_total rows k)) (m_labels (computeMonthly rows))"
proof -
  let ?m = "foldl monthly_row [] rows"
  have "k \<in> set (sort (obj_keys ?m)) \<Longrightarrow>
        bucket_returns (bucket_of ?m k) = month_other_total rows k" for k
  proof -
    assume "k \<in> set (sort (obj_keys ?m))"
    then have "k \<in> fst ` set ?m" by (auto simp: obj_keys_def set_obj_entries)
    then obtain b where "map_of ?m k = Some b"
      by (cases "map_of ?m k") (auto simp: map_of_eq_None_iff)
    then show ?thesis using monthly_invariant[of rows] by (simp add: bucket_of_def)
  qed
  then show ?thesis by (simp add: computeMonthly_def Let_def)
qed

section \<open>The frequency table\<close>

text \<open>
  Claim C10 (the code departs from it). The item of \<open>undated_then_dated\<close> has one
  parseable purchase date, 15 January 2024, which is therefore both the minimum and the
  maximum of its observed dates. The table reports \<^verbatim>\<open>null\<close> as its earliest date: the
  entry starts with the date of the first line, parseable or not, and a later date never
  compares smaller than \<^verbatim>\<open>null\<close>.
\<close>

theorem first_date_stays_null:
  "map (\<lambda>e. (fq_sku e, fq_firstDate e, fq_lastDate e)) (computeFrequencyTable undated_then_dated)
   = [(''900'', DateNull, jan15)]"
  by code_simp

text \<open>The part of the claim that holds: the rows are sorted descending by count.\<close>

lemma insert_sorted_key:
  "insert_sorted (\<lambda>a b. f a < f b) x ys = insort_key f x (ys :: 'a list)" for f :: "'a \<Rightarrow> rat"
  by (induction ys) (auto simp: not_less)

lemma js_sort_key: "js_sort (\<lambda>a b. f a < f b) xs = sort_key f xs" for f :: "'a \<Rightarrow> rat"
  unfolding js_sort_def sort_key_def by (induction xs) (auto simp: insert_sorted_key)

lemma frequency_table_sorted:
  "sorted_wrt (\<lambda>a b. fq_count a \<ge> fq_count b) (computeFrequencyTable purchases)"
proof -
  have "computeFrequencyTable purchases
      = sort_key (\<lambda>e. - fq_count e) (obj_values (foldl freq_row [] purchases))"
    using js_sort_key[of "\<lambda>e. - fq_count e"] by (simp add: computeFrequencyTable_def)
  moreover have "sorted (map (\<lambda>e. - fq_count e) (sort_key (\<lambda>e. - fq_count e) xs))" for xs :: "freqItem list"
    by (rule sorted_sort_key)
  ultimately show ?thesis
    by (simp add: sorted_wrt_map)
qed

section \<open>The spending trend\<close>









section \<open>Deduplicated and per-line savings\<close>















section \<open>Independence of the evaluation instant\<close>

text \<open>
  Claim C5, amended. For a fixed input sequence (the rows in the same order), two
  invocations of the engine at different instants return the same summary and the same
  insight sequence, and also the same monthly series, frequency table, price changes and
  savings breakdown: only the return-eligibility output is computed from the instant.
\<close>

theorem outputs_independent_of_instant:
  "r_summary (computeAll t1 rows) = r_summary (computeAll t2 rows)
   \<and> r_insights (computeAll t1 rows) = r_insights (computeAll t2 rows)
   \<and> r_monthly (computeAll t1 rows) = r_monthly (computeAll t2 rows)
   \<and> r_frequencyTable (computeAll t1 rows) = r_frequencyTable (computeAll t2 rows)
   \<and> r_priceChanges (computeAll t1 rows) = r_priceChanges (computeAll t2 rows)
   \<and> r_savingsBreakdown (computeAll t1 rows) = r_savingsBreakdown (computeAll t2 rows)"
  by (simp add: computeAll_def Let_def)

text \<open>
  Claim C5 as stated fails: exchanging two lines of the same receipt, for the same item
  and of the same day, changes the insight sequence. The price observations of an item
  are sorted by date with a stable sort, so the input order decides which of the two
  prices is the old one, and the rising-prices insight is generated for one order only.
\<close>

theorem row_order_changes_insights:
  "receiptKey line_at_5 = receiptKey line_at_6
   \<and> itemKey line_at_5 = itemKey line_at_6
   \<and> transaction_date line_at_5 = transaction_date line_at_6
   \<and> map in_title (r_insights (computeAll apr24 [line_at_5, line_at_6]))
       = [''Rising Prices Detected'', ''Biggest Repeat Expenses'', ''Purchase Patterns'',
          ''Low Return Rate'', ''Savings Rate'']
   \<and> map in_title (r_insights (computeAll apr24 [line_at_6, line_at_5]))
       = [''Biggest Repeat Expenses'', ''Purchase Patterns'', ''Low Return Rate'', ''Savings Rate'']
   \<and> r_insights (computeAll apr24 [line_at_5, line_at_6])
       \<noteq> r_insights (computeAll apr24 [line_at_6, line_at_5])"
proof -
  have k: "receiptKey line_at_5 = receiptKey line_at_6 \<and> itemKey line_at_5 = itemKey line_at_6
      \<and> transaction_date line_at_5 = transaction_date line_at_6"
    by (simp add: receiptKey_def itemKey_def line_at_5_def line_at_6_def)
  have a: "map in_title (r_insights (computeAll apr24 [line_at_5, line_at_6]))
       = [''Rising Prices Detected'', ''Biggest Repeat Expenses'', ''Purchase Patterns'',
          ''Low Return Rate'', ''Savings Rate'']"
    by code_simp
  have b: "map in_title (r_insights (computeAll apr24 [line_at_6, line_at_5]))
       = [''Biggest Repeat Expenses'', ''Purchase Patterns'', ''Low Return Rate'', ''Savings Rate'']"
    by code_simp
  have "length (r_insights (computeAll apr24 [line_at_5, line_at_6]))
      \<noteq> length (r_insights (computeAll apr24 [line_at_6, line_at_5]))"
    using arg_cong[OF a, of length] arg_cong[OF b, of length] by simp
  then have "r_insights (computeAll apr24 [line_at_5, line_at_6])
       \<noteq> r_insights (computeAll apr24 [line_at_6, line_at_5])"
    by auto
  with k a b show ?thesis by simp
qed

text \<open>The eligibility output does depend on the instant: the headphones are still limited on 20 January.\<close>

lemma eligibility_depends_on_instant:
  "map re_status (pr_all (r_potentialReturns (computeAll jan20 jan_purchases))) = [Limited, Anytime]
   \<and> map re_status (pr_all (r_potentialReturns (computeAll apr24 jan_purchases))) = [Anytime, Expired]"
  by code_simp

end
